theory Spec2Isabelle
  imports Complex_Main
begin

section \<open>Strings and cache keys\<close>

text \<open>
  The gateway builds its Redis keys with JavaScript template strings and the string
  methods \<^verbatim>\<open>toLowerCase\<close> and \<^verbatim>\<open>toUpperCase\<close>. Strings are modelled as
  \<^typ>\<open>string\<close>; the two case mappings act on the ASCII letters
  (codes 65..90 and 97..122) and leave every other character alone, which is what the
  JavaScript methods do on ASCII text. Text beyond ASCII is outside the model.
\<close>

definition toLowerChar :: "char \<Rightarrow> char" where
  "toLowerChar c =
     (let n = (of_char c :: nat) in if 65 \<le> n \<and> n \<le> 90 then char_of (n + 32) else c)"

definition toUpperChar :: "char \<Rightarrow> char" where
  "toUpperChar c =
     (let n = (of_char c :: nat) in if 97 \<le> n \<and> n \<le> 122 then char_of (n - 32) else c)"

definition toLowerCase :: "string \<Rightarrow> string" where
  "toLowerCase s = map toLowerChar s"

definition toUpperCase :: "string \<Rightarrow> string" where
  "toUpperCase s = map toUpperChar s"

text \<open>
  Two characters differ at most in letter case when they are equal or one is an ASCII
  capital and the other the small letter 32 codes above it; two strings do when they
  have the same length and their characters do, position by position.
\<close>

definition case_pair :: "char \<Rightarrow> char \<Rightarrow> bool" where
  "case_pair c d =
     (let m = (of_char c :: nat); n = (of_char d :: nat) in
        c = d \<or> (65 \<le> m \<and> m \<le> 90 \<and> n = m + 32) \<or> (65 \<le> n \<and> n \<le> 90 \<and> m = n + 32))"

definition case_variant :: "string \<Rightarrow> string \<Rightarrow> bool" where
  "case_variant s t = list_all2 case_pair s t"

text \<open>\<^verbatim>\<open>const redisStockKey = (symbol) => `stock:${symbol.toUpperCase()}`;\<close>\<close>

definition redisStockKey :: "string \<Rightarrow> string" where
  "redisStockKey symbol = ''stock:'' @ toUpperCase symbol"

text \<open>\<^verbatim>\<open>const rediswea = (city) => `weather:${city.toLowerCase()}`;\<close>\<close>

definition rediswea :: "string \<Rightarrow> string" where
  "rediswea city = ''weather:'' @ toLowerCase city"

text \<open>\<^verbatim>\<open>const redisForecastKey = (city) => `forecast:${city.toLowerCase()}`;\<close>\<close>

definition redisForecastKey :: "string \<Rightarrow> string" where
  "redisForecastKey city = ''forecast:'' @ toLowerCase city"

text \<open>\<^verbatim>\<open>const redisKey = (country, category) => `gnews:${country}:${category}`;\<close>\<close>

definition redisKey :: "string \<Rightarrow> string \<Rightarrow> string" where
  "redisKey country category = ''gnews:'' @ country @ '':'' @ category"

section \<open>Values, errors and the world outside the process\<close>

text \<open>
  JavaScript values as far as the gateway looks into them: what \<^verbatim>\<open>JSON.parse\<close> can
  return, and \<^verbatim>\<open>undefined\<close>. Numbers are only passed through, never computed
  with, and are modelled as rationals. An object is the list of its properties; a
  property is read with \<^const>\<open>map_of\<close>.
\<close>

datatype jsval =
    JUndefined
  | JNull
  | JBool bool
  | JNum rat
  | JStr string
  | JArr "jsval list"
  | JObj "(string \<times> jsval) list"

text \<open>A thrown JavaScript error, with its \<^verbatim>\<open>message\<close>.\<close>

datatype error = Error (message: string) | TypeError (message: string)

text \<open>
  A \<^verbatim>\<open>node-fetch\<close> response: its \<^verbatim>\<open>ok\<close> flag and what \<^verbatim>\<open>response.json()\<close>
  resolves to (or rejects with, when the body is not JSON).
\<close>

datatype response = Response (ok: bool) (json: "error + jsval")

text \<open>
  Everything the process reads from outside itself, fixed for one run: the three
  credentials of \<^verbatim>\<open>process.env\<close>; the upstream providers, as functions from the
  request to its outcome (\<^verbatim>\<open>fetch(url)\<close> resolves to a response or rejects on a
  transport error; \<^verbatim>\<open>axios.get(url, {params})\<close> resolves to \<^verbatim>\<open>response.data\<close> or
  rejects, also on a non-2xx status); the built-ins \<^verbatim>\<open>JSON.stringify\<close> and
  \<^verbatim>\<open>JSON.parse\<close>; and whether the Redis client works (\<open>Some e\<close>: every command
  rejects with \<open>e\<close>, as after the failed connect that the start-up code only logs).
\<close>

record world =
  WEATHER_API :: string
  GNEWS_API_KEY :: string
  TIINGO_API_KEY :: string
  fetch :: "string \<Rightarrow> error + response"
  axios_get :: "string \<Rightarrow> (string \<times> string) list \<Rightarrow> error + jsval"
  JSON_stringify :: "jsval \<Rightarrow> string"
  JSON_parse :: "string \<Rightarrow> error + jsval"
  redis_fault :: "error option"

text \<open>
  What a run changes: the Redis store (each key with its value and the \<^verbatim>\<open>EX\<close>
  seconds it was written with; expiry itself is not modelled, the calls of one run
  happen within every entry's lifetime), the upstream requests made so far, in order,
  and the console. A console line is recorded as an event, not by its wording, where
  the model has the function of one snapshot only. The forecast function is modelled
  from both snapshots, which word its line differently: that line is recorded with its
  text (\<open>Printed\<close>).
\<close>

datatype domain = Stock | Weather | Forecast | News

datatype event =
    Stored domain string
  | Served domain string
  | Failed string string
  | ErrorLogged error
  | PreloadStart
  | PreloadDone
  | Printed string

record state =
  redis :: "string \<rightharpoonup> string \<times> nat"
  requests :: "string list"
  console :: "event list"

section \<open>Asynchronous code as a state-and-exception monad\<close>

text \<open>
  An \<^verbatim>\<open>async\<close> function is a function of the state that returns the new state with
  either the value it resolves to or the error it rejects with. What was done before a
  throw stays done.
\<close>

type_synonym 'a io = "state \<Rightarrow> (error + 'a) \<times> state"

definition io_return :: "'a \<Rightarrow> 'a io" where
  "io_return x s = (Inr x, s)"

definition io_throw :: "error \<Rightarrow> 'a io" where
  "io_throw e s = (Inl e, s)"

text \<open>\<^verbatim>\<open>const x = await m; f(x)\<close>\<close>

definition io_bind :: "'a io \<Rightarrow> ('a \<Rightarrow> 'b io) \<Rightarrow> 'b io" where
  "io_bind m f s = (case m s of (Inl e, s') \<Rightarrow> (Inl e, s') | (Inr x, s') \<Rightarrow> f x s')"

text \<open>\<^verbatim>\<open>try { m } catch (err) { h(err) }\<close>\<close>

definition io_catch :: "'a io \<Rightarrow> (error \<Rightarrow> 'a io) \<Rightarrow> 'a io" where
  "io_catch m h s = (case m s of (Inl e, s') \<Rightarrow> h e s' | (Inr x, s') \<Rightarrow> (Inr x, s'))"

text \<open>\<^verbatim>\<open>for (const x of xs) { body(x) }\<close>\<close>

fun for_each :: "'a list \<Rightarrow> ('a \<Rightarrow> unit io) \<Rightarrow> unit io" where
  "for_each [] body = io_return ()"
| "for_each (x # xs) body = io_bind (body x) (\<lambda>_. for_each xs body)"

text \<open>The primitives: the Redis client, the HTTP clients, the console.\<close>

definition cli_get :: "world \<Rightarrow> string \<Rightarrow> string option io" where
  "cli_get w key s =
     (case redis_fault w of
        Some e \<Rightarrow> (Inl e, s)
      | None \<Rightarrow> (Inr (map_option fst (redis s key)), s))"

definition cli_set :: "world \<Rightarrow> string \<Rightarrow> string \<Rightarrow> nat \<Rightarrow> unit io" where
  "cli_set w key v ex s =
     (case redis_fault w of
        Some e \<Rightarrow> (Inl e, s)
      | None \<Rightarrow> (Inr (), s\<lparr>redis := (redis s)(key \<mapsto> (v, ex))\<rparr>))"

definition http_fetch :: "world \<Rightarrow> string \<Rightarrow> response io" where
  "http_fetch w url s = (fetch w url, s\<lparr>requests := requests s @ [url]\<rparr>)"

definition http_axios_get :: "world \<Rightarrow> string \<Rightarrow> (string \<times> string) list \<Rightarrow> jsval io" where
  "http_axios_get w url params s = (axios_get w url params, s\<lparr>requests := requests s @ [url]\<rparr>)"

definition response_json :: "response \<Rightarrow> jsval io" where
  "response_json r s = (json r, s)"

definition json_parse :: "world \<Rightarrow> string \<Rightarrow> jsval io" where
  "json_parse w text s = (JSON_parse w text, s)"

definition console_log :: "event \<Rightarrow> unit io" where
  "console_log ev s = (Inr (), s\<lparr>console := console s @ [ev]\<rparr>)"

text \<open>\<^verbatim>\<open>if (cached)\<close>: \<^verbatim>\<open>null\<close> and the empty string are falsy.\<close>

definition truthy :: "string option \<Rightarrow> bool" where
  "truthy cached = (case cached of None \<Rightarrow> False | Some v \<Rightarrow> v \<noteq> [])"

definition text_of :: "string option \<Rightarrow> string" where
  "text_of cached = (case cached of None \<Rightarrow> [] | Some v \<Rightarrow> v)"

text \<open>What a request handler answers: \<^verbatim>\<open>res.status(n).json(body)\<close> or
  \<^verbatim>\<open>res.status(n).send(text)\<close>; the status is 200 when the handler sets none.\<close>

datatype reply = ReplyJson nat jsval | ReplySend nat string

section \<open>Weather\<close>

text \<open>
  \<^verbatim>\<open>
  async function fetchAndStoreWeather(city) {
    const openWeatherKey = process.env.WEATHER_API;
    const url = `https://api.openweathermap.org/data/2.5/weather?q=${city}&units=metric&appid=${openWeatherKey}`;
    const response = await fetch(url);
    if (!response.ok) throw new Error(`Failed to fetch weather for ${city}`);
    const data = await response.json();
    await cli.set(rediswea(city), JSON.stringify(data), { EX: 60 * 60 });
    console.log(`Stored weather for: ${city}`);
    return data;
  }
  \<close>
\<close>

definition weather_url :: "world \<Rightarrow> string \<Rightarrow> string" where
  "weather_url w city =
     ''https://api.openweathermap.org/data/2.5/weather?q='' @ city @
     ''&units=metric&appid='' @ WEATHER_API w"

definition fetchAndStoreWeather :: "world \<Rightarrow> string \<Rightarrow> jsval io" where
  "fetchAndStoreWeather w city =
     io_bind (http_fetch w (weather_url w city)) (\<lambda>response.
     if \<not> ok response then io_throw (Error (''Failed to fetch weather for '' @ city))
     else
       io_bind (response_json response) (\<lambda>data.
       io_bind (cli_set w (rediswea city) (JSON_stringify w data) (60 * 60)) (\<lambda>_.
       io_bind (console_log (Stored Weather city)) (\<lambda>_.
       io_return data))))"

text \<open>
  \<^verbatim>\<open>
  app.get("/api/weather/:city", async (req, res) => {
    const { city } = req.params;
    const key = rediswea(city);
    try {
      const cached = await cli.get(key);
      if (cached) {
        console.log(`Served from Redis: ${city}`);
        return res.json(JSON.parse(cached));
      }
      const data = await fetchAndStoreWeather(city);
      res.json(data);
    } catch (err) {
      console.error(err);
      res.status(500).json({ error: err.message });
    }
  });
  \<close>
\<close>

definition api_weather :: "world \<Rightarrow> string \<Rightarrow> reply io" where
  "api_weather w city =
     (let key = rediswea city in
      io_catch
        (io_bind (cli_get w key) (\<lambda>cached.
           if truthy cached then
             io_bind (console_log (Served Weather city)) (\<lambda>_.
             io_bind (json_parse w (text_of cached)) (\<lambda>body.
             io_return (ReplyJson 200 body)))
           else
             io_bind (fetchAndStoreWeather w city) (\<lambda>data.
             io_return (ReplyJson 200 data))))
        (\<lambda>err.
           io_bind (console_log (ErrorLogged err)) (\<lambda>_.
           io_return (ReplyJson 500 (JObj [(''error'', JStr (message err))])))))"

section \<open>Forecast, in the two snapshots of the server\<close>

text \<open>
  \<^verbatim>\<open>
  async function fetchAndStoreForecast(city) {
    const openWeatherKey = process.env.WEATHER_API;
    const url = `https://api.openweathermap.org/data/2.5/forecast?q=${city}&units=metric&appid=${openWeatherKey}`;
    const response = await fetch(url);
    if (!response.ok) throw new Error(`Failed to fetch forecast for ${city}`);
    const data = await response.json();
    // Store in Redis for 1 hour (3600s)
    await cli.set(redisForecastKey(city), JSON.stringify(data), { EX: 60 * 60 });
    console.log(`<U+2705> Stored forecast for: ${city}`);
    return data;
  }
  \<close>
  is the function of \<^verbatim>\<open>server.js\<close>, whose console line starts with the check mark
  character U+2705 (written \<^verbatim>\<open><U+2705>\<close> above, \<open>check_mark\<close> below: its three
  bytes in UTF-8); the other snapshot has the same text with
  \<^verbatim>\<open>
    // Store in Redis for 6 hours
    await cli.set(redisForecastKey(city), JSON.stringify(data), { EX: 6 * 60 * 60 });
    console.log(`Stored forecast in Redis for: ${city}`);
  \<close>
\<close>

definition forecast_url :: "world \<Rightarrow> string \<Rightarrow> string" where
  "forecast_url w city =
     ''https://api.openweathermap.org/data/2.5/forecast?q='' @ city @
     ''&units=metric&appid='' @ WEATHER_API w"

definition check_mark :: string where
  "check_mark = [CHR 0xE2, CHR 0x9C, CHR 0x85]"

definition fetchAndStoreForecast :: "world \<Rightarrow> string \<Rightarrow> jsval io" where
  "fetchAndStoreForecast w city =
     io_bind (http_fetch w (forecast_url w city)) (\<lambda>response.
     if \<not> ok response then io_throw (Error (''Failed to fetch forecast for '' @ city))
     else
       io_bind (response_json response) (\<lambda>data.
       io_bind (cli_set w (redisForecastKey city) (JSON_stringify w data) (60 * 60)) (\<lambda>_.
       io_bind (console_log (Printed (check_mark @ '' Stored forecast for: '' @ city))) (\<lambda>_.
       io_return data))))"

definition fetchAndStoreForecast_part_000 :: "world \<Rightarrow> string \<Rightarrow> jsval io" where
  "fetchAndStoreForecast_part_000 w city =
     io_bind (http_fetch w (forecast_url w city)) (\<lambda>response.
     if \<not> ok response then io_throw (Error (''Failed to fetch forecast for '' @ city))
     else
       io_bind (response_json response) (\<lambda>data.
       io_bind (cli_set w (redisForecastKey city) (JSON_stringify w data) (6 * 60 * 60)) (\<lambda>_.
       io_bind (console_log (Printed (''Stored forecast in Redis for: '' @ city))) (\<lambda>_.
       io_return data))))"

text \<open>
  \<^verbatim>\<open>
  app.get("/api/forecast/:city", async (req, res) => {
    const { city } = req.params;
    const key = redisForecastKey(city);
    try {
      const cached = await cli.get(key);
      if (cached) {
        console.log(`Served forecast from Redis: ${city}`);
        return res.json(JSON.parse(cached));
      }
      const data = await fetchAndStoreForecast(city);
      res.json(data);
    } catch (err) {
      console.error(err);
      res.status(500).json({ error: err.message });
    }
  });
  \<close>
\<close>

definition api_forecast :: "world \<Rightarrow> string \<Rightarrow> reply io" where
  "api_forecast w city =
     (let key = redisForecastKey city in
      io_catch
        (io_bind (cli_get w key) (\<lambda>cached.
           if truthy cached then
             io_bind (console_log (Served Forecast city)) (\<lambda>_.
             io_bind (json_parse w (text_of cached)) (\<lambda>body.
             io_return (ReplyJson 200 body)))
           else
             io_bind (fetchAndStoreForecast w city) (\<lambda>data.
             io_return (ReplyJson 200 data))))
        (\<lambda>err.
           io_bind (console_log (ErrorLogged err)) (\<lambda>_.
           io_return (ReplyJson 500 (JObj [(''error'', JStr (message err))])))))"

section \<open>News and the preload sweep\<close>

text \<open>
  \<^verbatim>\<open>
  const countries = ["us", "sg", "in"];
  const categories = ["general", "nation", "business", "technology", "entertainment"];
  \<close>
\<close>

definition countries :: "string list" where
  "countries = [''us'', ''sg'', ''in'']"

definition categories :: "string list" where
  "categories = [''general'', ''nation'', ''business'', ''technology'', ''entertainment'']"

text \<open>
  \<^verbatim>\<open>
  async function fetchAndStoreNews(country, category) {
    const url = `https://gnews.io/api/v4/top-headlines?category=${category}&lang=en&country=${country}&max=100&apikey=${newapikey}`;
    const response = await fetch(url);
    if (!response.ok) throw new Error(`Failed for ${country}-${category}`);
    const data = await response.json();
    await cli.set(redisKey(country, category), JSON.stringify(data), { EX: 60 * 60 * 6 });
    console.log(`Stored: ${country}-${category}`);
    return data;
  }
  \<close>
\<close>

definition news_url :: "world \<Rightarrow> string \<Rightarrow> string \<Rightarrow> string" where
  "news_url w country category =
     ''https://gnews.io/api/v4/top-headlines?category='' @ category @
     ''&lang=en&country='' @ country @ ''&max=100&apikey='' @ GNEWS_API_KEY w"

definition fetchAndStoreNews :: "world \<Rightarrow> string \<Rightarrow> string \<Rightarrow> jsval io" where
  "fetchAndStoreNews w country category =
     io_bind (http_fetch w (news_url w country category)) (\<lambda>response.
     if \<not> ok response then io_throw (Error (''Failed for '' @ country @ ''-'' @ category))
     else
       io_bind (response_json response) (\<lambda>data.
       io_bind (cli_set w (redisKey country category) (JSON_stringify w data) (60 * 60 * 6)) (\<lambda>_.
       io_bind (console_log (Stored News (country @ ''-'' @ category))) (\<lambda>_.
       io_return data))))"

text \<open>
  \<^verbatim>\<open>
  async function preloadAllNews() {
    console.log("Preloading news data...");
    for (const country of countries) {
      for (const category of categories) {
        try {
          await fetchAndStoreNews(country, category);
        } catch (err) {
          console.error(`Failed: ${country}-${category}`, err.message);
        }
      }
    }
    console.log("Preloading complete.");
  }
  \<close>
  The function has no \<^verbatim>\<open>return\<close>: it resolves to \<^verbatim>\<open>undefined\<close>, the unit value here.
\<close>

definition preloadAllNews :: "world \<Rightarrow> unit io" where
  "preloadAllNews w =
     io_bind (console_log PreloadStart) (\<lambda>_.
     io_bind
       (for_each countries (\<lambda>country.
          for_each categories (\<lambda>category.
            io_catch
              (io_bind (fetchAndStoreNews w country category) (\<lambda>_. io_return ()))
              (\<lambda>err. console_log (Failed (country @ ''-'' @ category) (message err))))))
       (\<lambda>_. console_log PreloadDone))"

text \<open>
  \<^verbatim>\<open>
  app.get("/api/news/:country/:category", async (req, res) => {
    const { country, category } = req.params;
    const key = redisKey(country, category);
    try {
      const cached = await cli.get(key);
      if (cached) {
        console.log(`Served from Redis: ${country}-${category}`);
        return res.json(JSON.parse(cached));
      }
      const data = await fetchAndStoreNews(country, category);
      res.json(data);
    } catch (err) {
      res.status(500).json({ error: err.message });
    }
  });
  \<close>
\<close>

definition api_news :: "world \<Rightarrow> string \<Rightarrow> string \<Rightarrow> reply io" where
  "api_news w country category =
     (let key = redisKey country category in
      io_catch
        (io_bind (cli_get w key) (\<lambda>cached.
           if truthy cached then
             io_bind (console_log (Served News (country @ ''-'' @ category))) (\<lambda>_.
             io_bind (json_parse w (text_of cached)) (\<lambda>body.
             io_return (ReplyJson 200 body)))
           else
             io_bind (fetchAndStoreNews w country category) (\<lambda>data.
             io_return (ReplyJson 200 data))))
        (\<lambda>err. io_return (ReplyJson 500 (JObj [(''error'', JStr (message err))]))))"

text \<open>
  \<^verbatim>\<open>
  app.get("/backup", async (req, res) => {
    await preloadAllNews();
    res.send("All country-category data backed up!");
  });
  \<close>
\<close>

definition backup :: "world \<Rightarrow> reply io" where
  "backup w =
     io_bind (preloadAllNews w) (\<lambda>_.
     io_return (ReplySend 200 ''All country-category data backed up!''))"

section \<open>Stock quotes\<close>

text \<open>
  \<^verbatim>\<open>response.data[0]\<close>: reading a property of \<^verbatim>\<open>null\<close> or \<^verbatim>\<open>undefined\<close> throws a
  \<^verbatim>\<open>TypeError\<close>; an array gives its first element, an object its property \<^verbatim>\<open>"0"\<close>,
  a string its first character, and what is not there is \<^verbatim>\<open>undefined\<close>.
\<close>

fun index0 :: "jsval \<Rightarrow> error + jsval" where
  "index0 JUndefined = Inl (TypeError ''Cannot read properties of undefined'')"
| "index0 JNull = Inl (TypeError ''Cannot read properties of null'')"
| "index0 (JArr xs) = Inr (case xs of [] \<Rightarrow> JUndefined | x # _ \<Rightarrow> x)"
| "index0 (JObj ps) = Inr (case map_of ps ''0'' of None \<Rightarrow> JUndefined | Some v \<Rightarrow> v)"
| "index0 (JStr s) = Inr (case s of [] \<Rightarrow> JUndefined | c # _ \<Rightarrow> JStr [c])"
| "index0 (JBool b) = Inr JUndefined"
| "index0 (JNum n) = Inr JUndefined"

text \<open>\<^verbatim>\<open>x?.close\<close>: \<^verbatim>\<open>undefined\<close> when \<open>x\<close> is \<^verbatim>\<open>null\<close> or \<^verbatim>\<open>undefined\<close>, else
  the property \<^verbatim>\<open>close\<close> of \<open>x\<close>, which only an object can have.\<close>

fun optional_close :: "jsval \<Rightarrow> jsval" where
  "optional_close (JObj ps) = (case map_of ps ''close'' of None \<Rightarrow> JUndefined | Some v \<Rightarrow> v)"
| "optional_close x = JUndefined"

text \<open>\<^verbatim>\<open>x ?? null\<close>\<close>

definition or_null :: "jsval \<Rightarrow> jsval" where
  "or_null x = (if x = JUndefined \<or> x = JNull then JNull else x)"

text \<open>\<^verbatim>\<open>const lastPrice = response.data[0]?.close ?? null;\<close>\<close>

definition lastPrice :: "jsval \<Rightarrow> jsval io" where
  "lastPrice data s =
     (case index0 data of Inl e \<Rightarrow> (Inl e, s) | Inr x \<Rightarrow> (Inr (or_null (optional_close x)), s))"

text \<open>
  \<^verbatim>\<open>
  // Fetch from Tiingo and store in Redis for 2 hours
  async function fetchAndStoreStock(symbol) {
    const response = await axios.get(
      `https://api.tiingo.com/tiingo/daily/${symbol}/prices`,
      { params: { token: TIINGO_API_KEY, resampleFreq: "daily" } }
    );
    const lastPrice = response.data[0]?.close ?? null;
    // Cache in Redis for 2 hours
    await cli.set(redisStockKey(symbol), JSON.stringify(lastPrice), { EX: 3 * 60 * 60 });
    console.log(`Stored stock in Redis for: ${symbol}`);
    return lastPrice;
  }
  \<close>
\<close>

definition stock_url :: "string \<Rightarrow> string" where
  "stock_url symbol = ''https://api.tiingo.com/tiingo/daily/'' @ symbol @ ''/prices''"

definition stock_params :: "world \<Rightarrow> (string \<times> string) list" where
  "stock_params w = [(''token'', TIINGO_API_KEY w), (''resampleFreq'', ''daily'')]"

definition fetchAndStoreStock :: "world \<Rightarrow> string \<Rightarrow> jsval io" where
  "fetchAndStoreStock w symbol =
     io_bind (http_axios_get w (stock_url symbol) (stock_params w)) (\<lambda>data.
     io_bind (lastPrice data) (\<lambda>price.
     io_bind (cli_set w (redisStockKey symbol) (JSON_stringify w price) (3 * 60 * 60)) (\<lambda>_.
     io_bind (console_log (Stored Stock symbol)) (\<lambda>_.
     io_return price))))"

text \<open>
  \<^verbatim>\<open>
  app.get("/api/stocks", async (req, res) => {
    try {
      const SYMBOLS = ["AAPL", "TSLA", "MSFT", "GOOGL", "NVDA"];
      const results = await Promise.all(
        SYMBOLS.map(async (symbol) => {
          const cached = await cli.get(redisStockKey(symbol));
          if (cached) {
            console.log(`Served from Redis: ${symbol}`);
            return { symbol, price: JSON.parse(cached) };
          }
          const price = await fetchAndStoreStock(symbol);
          return { symbol, price };
        })
      );
      const prices = {};
      results.forEach((r) => (prices[r.symbol] = r.price));
      res.json(prices);
    } catch (err) {
      res.status(500).json({ error: "ERROR: Failed to fetch stocks" });
    }
  });
  \<close>
  \<^verbatim>\<open>Promise.all\<close> lets every task run to its end and rejects when one of them
  rejects. The five tasks read and write five different keys, so the model runs them
  one after the other, in the order of \<^verbatim>\<open>SYMBOLS\<close>; the error \<^verbatim>\<open>Promise.all\<close>
  rejects with is taken from the first task of the list that failed (the handler does
  not look at it).
\<close>

definition SYMBOLS :: "string list" where
  "SYMBOLS = [''AAPL'', ''TSLA'', ''MSFT'', ''GOOGL'', ''NVDA'']"

definition stock_task :: "world \<Rightarrow> string \<Rightarrow> (string \<times> jsval) io" where
  "stock_task w symbol =
     io_bind (cli_get w (redisStockKey symbol)) (\<lambda>cached.
     if truthy cached then
       io_bind (console_log (Served Stock symbol)) (\<lambda>_.
       io_bind (json_parse w (text_of cached)) (\<lambda>price.
       io_return (symbol, price)))
     else
       io_bind (fetchAndStoreStock w symbol) (\<lambda>price.
       io_return (symbol, price)))"

fun promise_all :: "'a io list \<Rightarrow> 'a list io" where
  "promise_all [] s = (Inr [], s)"
| "promise_all (t # ts) s =
     (case t s of (r, s1) \<Rightarrow>
        (case promise_all ts s1 of (rs, s2) \<Rightarrow>
           ((case r of
               Inl e \<Rightarrow> Inl e
             | Inr x \<Rightarrow> (case rs of Inl e' \<Rightarrow> Inl e' | Inr xs \<Rightarrow> Inr (x # xs))),
            s2)))"

text \<open>\<^verbatim>\<open>prices[symbol] = price\<close> on an object: replace the property or add it last.\<close>

definition obj_set :: "(string \<times> jsval) list \<Rightarrow> string \<times> jsval \<Rightarrow> (string \<times> jsval) list" where
  "obj_set ps r =
     (if fst r \<in> fst ` set ps
      then map (\<lambda>p. if fst p = fst r then r else p) ps
      else ps @ [r])"

definition api_stocks :: "world \<Rightarrow> reply io" where
  "api_stocks w =
     io_catch
       (io_bind (promise_all (map (stock_task w) SYMBOLS)) (\<lambda>results.
        io_return (ReplyJson 200 (JObj (foldl obj_set [] results)))))
       (\<lambda>err. io_return (ReplyJson 500 (JObj [(''error'', JStr ''ERROR: Failed to fetch stocks'')])))"

section \<open>Notions derived from the code, for the statements below\<close>

definition empty_state :: state where
  "empty_state = \<lparr>redis = Map.empty, requests = [], console = []\<rparr>"

text \<open>
  What \<^const>\<open>fetchAndStoreNews\<close> resolves to or rejects with. It is read off a run of the
  function itself; lemma \<open>fetchAndStoreNews_result\<close> shows that the state the run
  starts from does not matter.
\<close>

definition news_result :: "world \<Rightarrow> string \<Rightarrow> string \<Rightarrow> error + jsval" where
  "news_result w country category = fst (fetchAndStoreNews w country category empty_state)"

text \<open>The \<^verbatim>\<open>try\<close> statement in the body of the sweep's inner loop, for one combination.\<close>

definition try_news :: "world \<Rightarrow> string \<times> string \<Rightarrow> unit io" where
  "try_news w cc =
     io_catch
       (io_bind (fetchAndStoreNews w (fst cc) (snd cc)) (\<lambda>_. io_return ()))
       (\<lambda>err. console_log (Failed (fst cc @ ''-'' @ snd cc) (message err)))"

text \<open>What that statement does to the state, as lemma \<open>try_news_effect\<close> shows.\<close>

definition news_effect :: "world \<Rightarrow> state \<Rightarrow> string \<times> string \<Rightarrow> state" where
  "news_effect w s cc =
     (case news_result w (fst cc) (snd cc) of
        Inr data \<Rightarrow>
          s\<lparr>redis := (redis s)(redisKey (fst cc) (snd cc) \<mapsto> (JSON_stringify w data, 21600)),
            requests := requests s @ [news_url w (fst cc) (snd cc)],
            console := console s @ [Stored News (fst cc @ ''-'' @ snd cc)]\<rparr>
      | Inl e \<Rightarrow>
          s\<lparr>requests := requests s @ [news_url w (fst cc) (snd cc)],
            console := console s @ [Failed (fst cc @ ''-'' @ snd cc) (message e)]\<rparr>)"

text \<open>The console line the sweep leaves for one combination.\<close>

definition sweep_line :: "world \<Rightarrow> string \<times> string \<Rightarrow> event" where
  "sweep_line w cc =
     (case news_result w (fst cc) (snd cc) of
        Inr data \<Rightarrow> Stored News (fst cc @ ''-'' @ snd cc)
      | Inl e \<Rightarrow> Failed (fst cc @ ''-'' @ snd cc) (message e))"




section \<open>Sample worlds\<close>

text \<open>
  Concrete worlds on which the theorems below are exercised. \<open>sample_stringify\<close> and
  \<open>sample_parse\<close> are JSON on the few values the sample providers return. In
  \<open>sample_world\<close> two of the fifteen headline requests fail (a transport error for
  sg-business, a non-success status for in-nation), the weather and forecast provider
  does not know the city Atlantis, and the quote provider has a price for AAPL, rejects
  TSLA and has no data for the other tickers. In \<open>calm_world\<close> every request succeeds.
\<close>

definition sample_stringify :: "jsval \<Rightarrow> string" where
  "sample_stringify v =
     (if v = JNull then ''null''
      else if v = JNum (689 / 4) then ''172.25''
      else if v = JArr [] then ''[]''
      else ''{}'')"

definition sample_parse :: "string \<Rightarrow> error + jsval" where
  "sample_parse text =
     (if text = ''null'' then Inr JNull
      else if text = ''172.25'' then Inr (JNum (689 / 4))
      else if text = ''[]'' then Inr (JArr [])
      else if text = ''{}'' then Inr (JObj [])
      else Inl (Error ''Unexpected token in JSON''))"

definition sample_fetch :: "string \<Rightarrow> error + response" where
  "sample_fetch url =
     (if url = ''https://gnews.io/api/v4/top-headlines?category=business&lang=en&country=sg&max=100&apikey=gkey''
      then Inl (Error ''socket hang up'')
      else if url = ''https://gnews.io/api/v4/top-headlines?category=nation&lang=en&country=in&max=100&apikey=gkey''
      then Inr (Response False (Inr (JObj [])))
      else if url = ''https://api.openweathermap.org/data/2.5/weather?q=Atlantis&units=metric&appid=wkey''
      then Inr (Response False (Inr (JObj [])))
      else if url = ''https://api.openweathermap.org/data/2.5/forecast?q=Atlantis&units=metric&appid=wkey''
      then Inr (Response False (Inr (JObj [])))
      else Inr (Response True (Inr (JObj []))))"

definition sample_axios :: "string \<Rightarrow> (string \<times> string) list \<Rightarrow> error + jsval" where
  "sample_axios url params =
     (if url = ''https://api.tiingo.com/tiingo/daily/AAPL/prices''
      then Inr (JArr [JObj [(''date'', JStr ''2024-05-01T00:00:00.000Z''),
                            (''close'', JNum (689 / 4)),
                            (''volume'', JNum 1000)]])
      else if url = ''https://api.tiingo.com/tiingo/daily/TSLA/prices''
      then Inl (Error ''Request failed with status code 404'')
      else Inr (JArr []))"

definition sample_world :: world where
  "sample_world =
     \<lparr>WEATHER_API = ''wkey'', GNEWS_API_KEY = ''gkey'', TIINGO_API_KEY = ''tkey'',
      fetch = sample_fetch, axios_get = sample_axios,
      JSON_stringify = sample_stringify, JSON_parse = sample_parse,
      redis_fault = None\<rparr>"

definition calm_world :: world where
  "calm_world =
     \<lparr>WEATHER_API = ''wkey'', GNEWS_API_KEY = ''gkey'', TIINGO_API_KEY = ''tkey'',
      fetch = (\<lambda>url. Inr (Response True (Inr (JObj [])))),
      axios_get = (\<lambda>url params. Inr (JArr [])),
      JSON_stringify = sample_stringify, JSON_parse = sample_parse,
      redis_fault = None\<rparr>"



text \<open>A store that already holds two of the news entries, written by an earlier sweep.\<close>

definition stale_state :: state where
  "stale_state =
     \<lparr>redis = [''gnews:sg:business'' \<mapsto> (''[]'', 21600), ''gnews:us:general'' \<mapsto> (''[]'', 21600)],
      requests = [], console = []\<rparr>"

text \<open>A store whose weather, forecast and news entries are not JSON.\<close>

definition corrupt_state :: state where
  "corrupt_state =
     \<lparr>redis = [''weather:paris'' \<mapsto> (''{'', 3600),
               ''forecast:paris'' \<mapsto> (''[1,'', 3600),
               ''gnews:us:general'' \<mapsto> (''<html>'', 21600)],
      requests = [], console = []\<rparr>"

section \<open>Cache keys and letter case\<close>

lemma char_of_code: "(of_char c :: nat) = n \<Longrightarrow> char_of n = c"
  by auto

lemma toLowerChar_case_pair: "case_pair c d \<Longrightarrow> toLowerChar c = toLowerChar d"
  unfolding case_pair_def toLowerChar_def Let_def
  by (auto simp: char_of_code)

lemma toUpperChar_case_pair: "case_pair c d \<Longrightarrow> toUpperChar c = toUpperChar d"
  unfolding case_pair_def toUpperChar_def Let_def
  by (auto simp: char_of_code)

lemma toLowerCase_case_variant: "case_variant s t \<Longrightarrow> toLowerCase s = toLowerCase t"
  unfolding case_variant_def toLowerCase_def
  by (induction s t rule: list_all2_induct) (simp_all add: toLowerChar_case_pair)

lemma toUpperCase_case_variant: "case_variant s t \<Longrightarrow> toUpperCase s = toUpperCase t"
  unfolding case_variant_def toUpperCase_def
  by (induction s t rule: list_all2_induct) (simp_all add: toUpperChar_case_pair)

text \<open>The stock, weather and forecast keys do not depend on the letter case of the
  parameter.\<close>

lemma redisStockKey_case_insensitive:
  "case_variant s t \<Longrightarrow> redisStockKey s = redisStockKey t"
  by (simp add: redisStockKey_def toUpperCase_case_variant)

lemma rediswea_case_insensitive:
  "case_variant s t \<Longrightarrow> rediswea s = rediswea t"
  by (simp add: rediswea_def toLowerCase_case_variant)

lemma redisForecastKey_case_insensitive:
  "case_variant s t \<Longrightarrow> redisForecastKey s = redisForecastKey t"
  by (simp add: redisForecastKey_def toLowerCase_case_variant)

lemma key_examples:
  "redisStockKey ''aapl'' = ''stock:AAPL''" "redisStockKey ''AAPL'' = ''stock:AAPL''"
  "rediswea ''Paris'' = ''weather:paris''" "redisForecastKey ''PARIS'' = ''forecast:paris''"
  by code_simp+

text \<open>
  Claim C1 (every domain's key is the same for inputs that differ only in letter case,
  the news key included). The news key is the one key that takes its parameters as they
  come: the country codes \<open>US\<close> and \<open>us\<close> differ only in letter case, and
  \<^const>\<open>redisKey\<close> gives them two different keys, so a request for
  \<^verbatim>\<open>/api/news/US/general\<close> misses the entry the sweep stored under
  \<^verbatim>\<open>gnews:us:general\<close>.
\<close>

theorem redisKey_case_sensitive:
  "case_variant ''US'' ''us'' \<and> case_variant ''general'' ''general'' \<and>
   redisKey ''US'' ''general'' = ''gnews:US:general'' \<and>
   redisKey ''us'' ''general'' = ''gnews:us:general'' \<and>
   redisKey ''US'' ''general'' \<noteq> redisKey ''us'' ''general''"
  by (simp add: case_variant_def case_pair_def redisKey_def)

section \<open>The preload sweep\<close>

lemmas io_defs = io_return_def io_throw_def io_bind_def io_catch_def cli_get_def cli_set_def
  http_fetch_def http_axios_get_def response_json_def json_parse_def console_log_def
  truthy_def text_of_def

lemma fetchAndStoreNews_result:
  "fst (fetchAndStoreNews w country category s) = news_result w country category"
  by (simp add: news_result_def fetchAndStoreNews_def io_defs split: sum.splits option.splits)

lemma try_news_effect: "try_news w cc s = (Inr (), news_effect w s cc)"
  by (simp add: try_news_def news_effect_def news_result_def empty_state_def
      fetchAndStoreNews_def io_defs split: sum.splits option.splits)

lemma for_each_total:
  assumes "\<And>x s. body x s = (Inr (), eff s x)"
  shows "for_each xs body s = (Inr (), foldl eff s xs)"
  by (induction xs arbitrary: s) (simp_all add: io_return_def io_bind_def assms)

lemma foldl_product:
  "foldl (\<lambda>s x. foldl (\<lambda>s y. f s (x, y)) s ys) s xs = foldl f s (List.product xs ys)"
  by (induction xs arbitrary: s) (simp_all add: foldl_map)

lemma preloadAllNews_run:
  "preloadAllNews w s =
     (Inr (),
      (foldl (news_effect w) (s\<lparr>console := console s @ [PreloadStart]\<rparr>)
         (List.product countries categories))
      \<lparr>console := console (foldl (news_effect w) (s\<lparr>console := console s @ [PreloadStart]\<rparr>)
         (List.product countries categories)) @ [PreloadDone]\<rparr>)"
proof -
  have inner: "\<And>country s. for_each categories (\<lambda>category. try_news w (country, category)) s =
      (Inr (), foldl (\<lambda>s category. news_effect w s (country, category)) s categories)"
    by (rule for_each_total) (simp add: try_news_effect)
  have outer: "\<And>s. for_each countries (\<lambda>country. for_each categories (\<lambda>category. try_news w (country, category))) s =
      (Inr (), foldl (news_effect w) s (List.product countries categories))"
    unfolding foldl_product[symmetric]
    by (rule for_each_total) (rule inner)
  have body: "(\<lambda>country. for_each categories (\<lambda>category.
            io_catch
              (io_bind (fetchAndStoreNews w country category) (\<lambda>_. io_return ()))
              (\<lambda>err. console_log (Failed (country @ ''-'' @ category) (message err)))))
     = (\<lambda>country. for_each categories (\<lambda>category. try_news w (country, category)))"
    by (simp add: try_news_def)
  show ?thesis
    unfolding preloadAllNews_def body
    by (simp add: io_bind_def console_log_def outer)
qed

lemma foldl_news_requests:
  "requests (foldl (news_effect w) s L) = requests s @ map (\<lambda>cc. news_url w (fst cc) (snd cc)) L"
  by (induction L arbitrary: s) (simp_all add: news_effect_def split: sum.splits)

lemma foldl_news_console:
  "console (foldl (news_effect w) s L) = console s @ map (sweep_line w) L"
  by (induction L arbitrary: s) (simp_all add: news_effect_def sweep_line_def split: sum.splits)

lemma redis_news_effect:
  "redis (news_effect w s cc) k =
     (case news_result w (fst cc) (snd cc) of
        Inr data \<Rightarrow> if k = redisKey (fst cc) (snd cc) then Some (JSON_stringify w data, 21600)
                    else redis s k
      | Inl e \<Rightarrow> redis s k)"
  by (simp add: news_effect_def split: sum.splits)

lemma foldl_news_redis_other:
  "k \<notin> (\<lambda>cc. redisKey (fst cc) (snd cc)) ` set L \<Longrightarrow>
   redis (foldl (news_effect w) s L) k = redis s k"
  by (induction L arbitrary: s) (auto simp: redis_news_effect split: sum.splits)

lemma foldl_news_redis:
  "distinct (map (\<lambda>cc. redisKey (fst cc) (snd cc)) L) \<Longrightarrow> cc \<in> set L \<Longrightarrow>
   redis (foldl (news_effect w) s L) (redisKey (fst cc) (snd cc)) =
     (case news_result w (fst cc) (snd cc) of
        Inr data \<Rightarrow> Some (JSON_stringify w data, 21600)
      | Inl e \<Rightarrow> redis s (redisKey (fst cc) (snd cc)))"
proof (induction L arbitrary: s)
  case Nil
  then show ?case by simp
next
  case (Cons a L)
  show ?case
  proof (cases "cc = a")
    case True
    with Cons.prems have "redisKey (fst a) (snd a) \<notin> (\<lambda>cc. redisKey (fst cc) (snd cc)) ` set L"
      by auto
    then have "redis (foldl (news_effect w) (news_effect w s a) L) (redisKey (fst a) (snd a)) =
        redis (news_effect w s a) (redisKey (fst a) (snd a))"
      by (rule foldl_news_redis_other)
    then show ?thesis
      using True by (simp add: redis_news_effect split: sum.splits)
  next
    case False
    with Cons.prems have in_L: "cc \<in> set L" and d: "distinct (map (\<lambda>cc. redisKey (fst cc) (snd cc)) L)"
      and ne: "redisKey (fst a) (snd a) \<noteq> redisKey (fst cc) (snd cc)"
      by auto
    show ?thesis
      using Cons.IH[OF d in_L, of "news_effect w s a"] ne
      by (simp add: redis_news_effect split: sum.splits)
  qed
qed

lemma sweep_order: "List.product countries categories =
  [(''us'', ''general''), (''us'', ''nation''), (''us'', ''business''), (''us'', ''technology''), (''us'', ''entertainment''),
   (''sg'', ''general''), (''sg'', ''nation''), (''sg'', ''business''), (''sg'', ''technology''), (''sg'', ''entertainment''),
   (''in'', ''general''), (''in'', ''nation''), (''in'', ''business''), (''in'', ''technology''), (''in'', ''entertainment'')]"
  by (simp add: countries_def categories_def)

lemma sweep_keys_distinct:
  "distinct (map (\<lambda>cc. redisKey (fst cc) (snd cc)) (List.product countries categories))"
  unfolding sweep_order by (simp add: redisKey_def)

text \<open>
  Claim C3. Whatever the providers and the store do, \<^const>\<open>preloadAllNews\<close> resolves
  (it never rejects), and it has then requested the headlines of all fifteen
  combinations, countries in the outer loop and categories in the inner one, whatever
  the store held before. For each combination, what \<^const>\<open>fetchAndStoreNews\<close> does is
  \<^const>\<open>news_result\<close>, on any state; when it resolves, the payload stands in the store
  under the combination's key with an expiry of 21600 seconds, and when it rejects, the
  error is caught, the key is left as it was and the sweep goes on.
\<close>

theorem preloadAllNews_sweeps_all:
  "\<exists>s'. preloadAllNews w s = (Inr (), s') \<and>
     requests s' = requests s @ map (\<lambda>(country, category). news_url w country category)
       [(''us'', ''general''), (''us'', ''nation''), (''us'', ''business''),
        (''us'', ''technology''), (''us'', ''entertainment''),
        (''sg'', ''general''), (''sg'', ''nation''), (''sg'', ''business''),
        (''sg'', ''technology''), (''sg'', ''entertainment''),
        (''in'', ''general''), (''in'', ''nation''), (''in'', ''business''),
        (''in'', ''technology''), (''in'', ''entertainment'')] \<and>
     (\<forall>(country, category) \<in> set
       [(''us'', ''general''), (''us'', ''nation''), (''us'', ''business''),
        (''us'', ''technology''), (''us'', ''entertainment''),
        (''sg'', ''general''), (''sg'', ''nation''), (''sg'', ''business''),
        (''sg'', ''technology''), (''sg'', ''entertainment''),
        (''in'', ''general''), (''in'', ''nation''), (''in'', ''business''),
        (''in'', ''technology''), (''in'', ''entertainment'')].
        fst (fetchAndStoreNews w country category s) = news_result w country category \<and>
        redis s' (redisKey country category) =
          (case news_result w country category of
             Inr data \<Rightarrow> Some (JSON_stringify w data, 21600)
           | Inl e \<Rightarrow> redis s (redisKey country category)))"
proof -
  let ?L = "[(''us'', ''general''), (''us'', ''nation''), (''us'', ''business''),
        (''us'', ''technology''), (''us'', ''entertainment''),
        (''sg'', ''general''), (''sg'', ''nation''), (''sg'', ''business''),
        (''sg'', ''technology''), (''sg'', ''entertainment''),
        (''in'', ''general''), (''in'', ''nation''), (''in'', ''business''),
        (''in'', ''technology''), (''in'', ''entertainment'')]"
  let ?s0 = "s\<lparr>console := console s @ [PreloadStart]\<rparr>"
  let ?s1 = "foldl (news_effect w) ?s0 ?L"
  let ?s' = "?s1\<lparr>console := console ?s1 @ [PreloadDone]\<rparr>"
  have run: "preloadAllNews w s = (Inr (), ?s')"
    by (simp only: preloadAllNews_run sweep_order)
  have req_gen: "requests ((foldl (news_effect w) ?s0 L)\<lparr>console := c\<rparr>) =
      requests s @ map (\<lambda>(country, category). news_url w country category) L" for L c
    by (simp add: foldl_news_requests case_prod_beta)
  have req: "requests ?s' = requests s @ map (\<lambda>(country, category). news_url w country category) ?L"
    by (rule req_gen)
  have store_gen: "redis ((foldl (news_effect w) ?s0 L)\<lparr>console := c\<rparr>) (redisKey (fst cc) (snd cc)) =
          (case news_result w (fst cc) (snd cc) of
             Inr data \<Rightarrow> Some (JSON_stringify w data, 21600)
           | Inl e \<Rightarrow> redis s (redisKey (fst cc) (snd cc)))"
    if "distinct (map (\<lambda>cc. redisKey (fst cc) (snd cc)) L)" "cc \<in> set L" for cc L c
    using foldl_news_redis[OF that, of w ?s0] by (simp split: sum.splits)
  have store: "redis ?s' (redisKey (fst cc) (snd cc)) =
          (case news_result w (fst cc) (snd cc) of
             Inr data \<Rightarrow> Some (JSON_stringify w data, 21600)
           | Inl e \<Rightarrow> redis s (redisKey (fst cc) (snd cc)))" if "cc \<in> set ?L" for cc
    by (rule store_gen[OF sweep_keys_distinct[unfolded sweep_order] that])
  show ?thesis
    apply (rule exI[of _ ?s'])
    apply (intro conjI)
      apply (rule run)
     apply (rule req)
    apply (rule ballI)
    apply (simp only: case_prod_beta fetchAndStoreNews_result)
    apply (rule conjI[OF refl])
    apply (erule store)
    done
qed

lemma news_result_eq:
  "news_result w country category =
     (case fetch w (news_url w country category) of
        Inl e \<Rightarrow> Inl e
      | Inr response \<Rightarrow>
          if \<not> ok response then Inl (Error (''Failed for '' @ country @ ''-'' @ category))
          else (case json response of
                  Inl e \<Rightarrow> Inl e
                | Inr data \<Rightarrow> (case redis_fault w of Some e \<Rightarrow> Inl e | None \<Rightarrow> Inr data)))"
  by (simp add: news_result_def fetchAndStoreNews_def io_defs split: sum.splits option.splits)

lemma sample_news_results:
  "news_result sample_world ''us'' ''general'' = Inr (JObj [])"
  "news_result sample_world ''us'' ''nation'' = Inr (JObj [])"
  "news_result sample_world ''us'' ''business'' = Inr (JObj [])"
  "news_result sample_world ''us'' ''technology'' = Inr (JObj [])"
  "news_result sample_world ''us'' ''entertainment'' = Inr (JObj [])"
  "news_result sample_world ''sg'' ''general'' = Inr (JObj [])"
  "news_result sample_world ''sg'' ''nation'' = Inr (JObj [])"
  "news_result sample_world ''sg'' ''business'' = Inl (Error ''socket hang up'')"
  "news_result sample_world ''sg'' ''technology'' = Inr (JObj [])"
  "news_result sample_world ''sg'' ''entertainment'' = Inr (JObj [])"
  "news_result sample_world ''in'' ''general'' = Inr (JObj [])"
  "news_result sample_world ''in'' ''nation'' = Inl (Error ''Failed for in-nation'')"
  "news_result sample_world ''in'' ''business'' = Inr (JObj [])"
  "news_result sample_world ''in'' ''technology'' = Inr (JObj [])"
  "news_result sample_world ''in'' ''entertainment'' = Inr (JObj [])"
  by (simp_all add: news_result_eq sample_world_def sample_fetch_def news_url_def)

lemma calm_news_result: "news_result calm_world country category = Inr (JObj [])"
  by (simp add: news_result_eq calm_world_def)

lemma sample_stringify_empty_obj: "JSON_stringify sample_world (JObj []) = ''{}''"
  by (simp add: sample_world_def sample_stringify_def)

text \<open>
  The sweep in \<^const>\<open>sample_world\<close>, where sg-business and in-nation fail, on a store
  that holds stale entries for us-general and sg-business: fifteen requests, the
  entries of the combinations that succeeded are rewritten (us-general among them), the
  stale sg-business entry is left, and in-nation stays absent.
\<close>

theorem preloadAllNews_sweeps_all_witness:
  "\<exists>s'. preloadAllNews sample_world stale_state = (Inr (), s') \<and>
     length (requests s') = 15 \<and>
     redis s' ''gnews:us:general'' = Some (''{}'', 21600) \<and>
     redis s' ''gnews:sg:technology'' = Some (''{}'', 21600) \<and>
     redis s' ''gnews:in:entertainment'' = Some (''{}'', 21600) \<and>
     redis s' ''gnews:sg:business'' = Some (''[]'', 21600) \<and>
     redis s' ''gnews:in:nation'' = None"
  using preloadAllNews_sweeps_all [of sample_world stale_state]
  by (auto simp: sample_news_results sample_stringify_empty_obj redisKey_def stale_state_def)

text \<open>
  Claim C6 says that the sweep returns a report of which combinations succeeded and
  which failed. It does not: in \<^const>\<open>sample_world\<close> two combinations fail and in
  \<^const>\<open>calm_world\<close> none does, and both the value \<^const>\<open>preloadAllNews\<close> resolves to and
  the reply of \<^verbatim>\<open>/backup\<close> are the same in the two worlds.
\<close>

theorem backup_reply_hides_failures:
  "news_result sample_world ''sg'' ''business'' = Inl (Error ''socket hang up'') \<and>
   news_result sample_world ''in'' ''nation'' = Inl (Error ''Failed for in-nation'') \<and>
   news_result calm_world ''sg'' ''business'' = Inr (JObj []) \<and>
   news_result calm_world ''in'' ''nation'' = Inr (JObj []) \<and>
   fst (preloadAllNews sample_world empty_state) = Inr () \<and>
   fst (preloadAllNews calm_world empty_state) = Inr () \<and>
   fst (backup sample_world empty_state) =
     Inr (ReplySend 200 ''All country-category data backed up!'') \<and>
   fst (backup calm_world empty_state) =
     Inr (ReplySend 200 ''All country-category data backed up!'')"
  by (simp add: sample_news_results calm_news_result preloadAllNews_run backup_def
      io_bind_def io_return_def)

lemma preloadAllNews_console:
  "console (snd (preloadAllNews w s)) =
     console s @ [PreloadStart] @ map (sweep_line w) (List.product countries categories) @
     [PreloadDone]"
  by (simp add: preloadAllNews_run foldl_news_console)

lemma backup_run:
  "backup w s = (Inr (ReplySend 200 ''All country-category data backed up!''),
                 snd (preloadAllNews w s))"
  by (simp add: preloadAllNews_run backup_def io_bind_def io_return_def)

text \<open>
  Claim C6, amended. \<^const>\<open>preloadAllNews\<close> resolves to no value and \<^verbatim>\<open>/backup\<close>
  always answers the same fixed text; the outcome of each combination is written to the
  console only: between the start line and the completion line there is one line per
  combination, in the order of the sweep, a \<open>Stored\<close> line for a success and a
  \<open>Failed\<close> line with the combination and the error's message for a failure.
\<close>

theorem preloadAllNews_reports_on_console:
  "\<exists>s'. preloadAllNews w s = (Inr (), s') \<and>
     backup w s = (Inr (ReplySend 200 ''All country-category data backed up!''), s') \<and>
     console s' = console s @ [PreloadStart] @ map (sweep_line w)
       [(''us'', ''general''), (''us'', ''nation''), (''us'', ''business''),
        (''us'', ''technology''), (''us'', ''entertainment''),
        (''sg'', ''general''), (''sg'', ''nation''), (''sg'', ''business''),
        (''sg'', ''technology''), (''sg'', ''entertainment''),
        (''in'', ''general''), (''in'', ''nation''), (''in'', ''business''),
        (''in'', ''technology''), (''in'', ''entertainment'')] @ [PreloadDone]"
proof (intro exI conjI)
  show "preloadAllNews w s = (Inr (), snd (preloadAllNews w s))"
    by (simp add: preloadAllNews_run)
  show "backup w s = (Inr (ReplySend 200 ''All country-category data backed up!''),
      snd (preloadAllNews w s))"
    by (rule backup_run)
  show "console (snd (preloadAllNews w s)) = console s @ [PreloadStart] @ map (sweep_line w)
       [(''us'', ''general''), (''us'', ''nation''), (''us'', ''business''),
        (''us'', ''technology''), (''us'', ''entertainment''),
        (''sg'', ''general''), (''sg'', ''nation''), (''sg'', ''business''),
        (''sg'', ''technology''), (''sg'', ''entertainment''),
        (''in'', ''general''), (''in'', ''nation''), (''in'', ''business''),
        (''in'', ''technology''), (''in'', ''entertainment'')] @ [PreloadDone]"
    by (rule preloadAllNews_console[unfolded sweep_order])
qed

text \<open>With two of the fifteen requests failing, the console names thirteen stored
  combinations and the two failures.\<close>

theorem preloadAllNews_reports_on_console_witness:
  "\<exists>s'. preloadAllNews sample_world empty_state = (Inr (), s') \<and>
     backup sample_world empty_state =
       (Inr (ReplySend 200 ''All country-category data backed up!''), s') \<and>
     console s' =
       [PreloadStart,
        Stored News ''us-general'', Stored News ''us-nation'', Stored News ''us-business'',
        Stored News ''us-technology'', Stored News ''us-entertainment'',
        Stored News ''sg-general'', Stored News ''sg-nation'',
        Failed ''sg-business'' ''socket hang up'',
        Stored News ''sg-technology'', Stored News ''sg-entertainment'',
        Stored News ''in-general'', Failed ''in-nation'' ''Failed for in-nation'',
        Stored News ''in-business'', Stored News ''in-technology'',
        Stored News ''in-entertainment'',
        PreloadDone]"
  using preloadAllNews_reports_on_console [of sample_world empty_state]
  by (simp add: sweep_line_def sample_news_results empty_state_def)

section \<open>Facts about the sample worlds\<close>

lemma sample_keys:
  "rediswea ''Atlantis'' = ''weather:atlantis''"
  "redisForecastKey ''Atlantis'' = ''forecast:atlantis''"
  "rediswea ''Paris'' = ''weather:paris''"
  "redisForecastKey ''Paris'' = ''forecast:paris''"
  "redisKey ''sg'' ''business'' = ''gnews:sg:business''"
  "redisKey ''us'' ''general'' = ''gnews:us:general''"
  by code_simp+

lemma sample_world_sel:
  "redis_fault sample_world = None"
  "fetch sample_world = sample_fetch"
  "axios_get sample_world = sample_axios"
  "JSON_stringify sample_world = sample_stringify"
  "JSON_parse sample_world = sample_parse"
  "WEATHER_API sample_world = ''wkey''"
  "GNEWS_API_KEY sample_world = ''gkey''"
  "TIINGO_API_KEY sample_world = ''tkey''"
  by (simp_all add: sample_world_def)

lemma sample_failures:
  "fst (fetchAndStoreWeather sample_world ''Atlantis'' empty_state) =
     Inl (Error ''Failed to fetch weather for Atlantis'')"
  "fst (fetchAndStoreForecast sample_world ''Atlantis'' empty_state) =
     Inl (Error ''Failed to fetch forecast for Atlantis'')"
  "fst (fetchAndStoreNews sample_world ''sg'' ''business'' empty_state) =
     Inl (Error ''socket hang up'')"
  by (simp_all add: fetchAndStoreWeather_def fetchAndStoreForecast_def fetchAndStoreNews_def
      io_defs sample_world_sel sample_fetch_def weather_url_def forecast_url_def news_url_def)

lemma sample_absent:
  "cli_get sample_world k empty_state = (Inr None, empty_state)"
  by (simp add: cli_get_def sample_world_sel empty_state_def)

lemma sample_urls:
  "weather_url sample_world ''Paris'' =
     ''https://api.openweathermap.org/data/2.5/weather?q=Paris&units=metric&appid=wkey''"
  "forecast_url sample_world ''Paris'' =
     ''https://api.openweathermap.org/data/2.5/forecast?q=Paris&units=metric&appid=wkey''"
  "news_url sample_world ''us'' ''general'' =
     ''https://gnews.io/api/v4/top-headlines?category=general&lang=en&country=us&max=100&apikey=gkey''"
  by (simp_all add: weather_url_def forecast_url_def news_url_def sample_world_sel)

lemma sample_fetch_ok:
  "sample_fetch ''https://api.openweathermap.org/data/2.5/weather?q=Paris&units=metric&appid=wkey'' =
     Inr (Response True (Inr (JObj [])))"
  "sample_fetch ''https://api.openweathermap.org/data/2.5/forecast?q=Paris&units=metric&appid=wkey'' =
     Inr (Response True (Inr (JObj [])))"
  "sample_fetch ''https://gnews.io/api/v4/top-headlines?category=general&lang=en&country=us&max=100&apikey=gkey'' =
     Inr (Response True (Inr (JObj [])))"
  by (simp_all add: sample_fetch_def)

lemma sample_codec:
  "sample_stringify (JObj []) = ''{}''" "sample_parse ''{}'' = Inr (JObj [])"
  "sample_stringify JNull = ''null''" "sample_parse ''null'' = Inr JNull"
  "sample_stringify (JNum (689 / 4)) = ''172.25''"
  "sample_parse ''172.25'' = Inr (JNum (689 / 4))"
  by (simp_all add: sample_stringify_def sample_parse_def)

lemma sample_stock_keys:
  "redisStockKey ''AAPL'' = ''stock:AAPL''" "redisStockKey ''TSLA'' = ''stock:TSLA''"
  "redisStockKey ''MSFT'' = ''stock:MSFT''" "redisStockKey ''GOOGL'' = ''stock:GOOGL''"
  "redisStockKey ''NVDA'' = ''stock:NVDA''"
  by code_simp+

lemma sample_axios_values:
  "axios_get sample_world (stock_url ''AAPL'') (stock_params sample_world) =
     Inr (JArr [JObj [(''date'', JStr ''2024-05-01T00:00:00.000Z''),
                      (''close'', JNum (689 / 4)),
                      (''volume'', JNum 1000)]])"
  "axios_get sample_world (stock_url ''TSLA'') (stock_params sample_world) =
     Inl (Error ''Request failed with status code 404'')"
  "axios_get sample_world (stock_url ''MSFT'') (stock_params sample_world) = Inr (JArr [])"
  "axios_get sample_world (stock_url ''GOOGL'') (stock_params sample_world) = Inr (JArr [])"
  "axios_get sample_world (stock_url ''NVDA'') (stock_params sample_world) = Inr (JArr [])"
  by (simp_all add: sample_world_sel sample_axios_def stock_url_def)

section \<open>The cache-aside handlers\<close>

text \<open>
  The three handlers \<^const>\<open>api_weather\<close>, \<^const>\<open>api_forecast\<close> and \<^const>\<open>api_news\<close> are
  the resolver of the specification, written out once per domain: look the key up, answer
  from the store on a hit, else fetch, store and answer.
\<close>

lemma fetchAndStoreWeather_fail_frame:
  "fst (fetchAndStoreWeather w city s) = Inl e \<Longrightarrow>
   redis (snd (fetchAndStoreWeather w city s)) = redis s"
  by (auto simp: fetchAndStoreWeather_def io_defs split: sum.splits option.splits if_splits)

lemma fetchAndStoreForecast_fail_frame:
  "fst (fetchAndStoreForecast w city s) = Inl e \<Longrightarrow>
   redis (snd (fetchAndStoreForecast w city s)) = redis s"
  by (auto simp: fetchAndStoreForecast_def io_defs split: sum.splits option.splits if_splits)

lemma fetchAndStoreNews_fail_frame:
  "fst (fetchAndStoreNews w country category s) = Inl e \<Longrightarrow>
   redis (snd (fetchAndStoreNews w country category s)) = redis s"
  by (auto simp: fetchAndStoreNews_def io_defs split: sum.splits option.splits if_splits)

lemma api_weather_miss:
  assumes "cli_get w (rediswea city) s = (Inr cached, s)" "\<not> truthy cached"
  shows "api_weather w city s =
    (case fetchAndStoreWeather w city s of
       (Inl e, s') \<Rightarrow> (Inr (ReplyJson 500 (JObj [(''error'', JStr (message e))])),
                       s'\<lparr>console := console s' @ [ErrorLogged e]\<rparr>)
     | (Inr data, s') \<Rightarrow> (Inr (ReplyJson 200 data), s'))"
  using assms
  by (simp add: api_weather_def io_bind_def io_catch_def io_return_def console_log_def
      split: prod.splits sum.splits)

lemma api_forecast_miss:
  assumes "cli_get w (redisForecastKey city) s = (Inr cached, s)" "\<not> truthy cached"
  shows "api_forecast w city s =
    (case fetchAndStoreForecast w city s of
       (Inl e, s') \<Rightarrow> (Inr (ReplyJson 500 (JObj [(''error'', JStr (message e))])),
                       s'\<lparr>console := console s' @ [ErrorLogged e]\<rparr>)
     | (Inr data, s') \<Rightarrow> (Inr (ReplyJson 200 data), s'))"
  using assms
  by (simp add: api_forecast_def io_bind_def io_catch_def io_return_def console_log_def
      split: prod.splits sum.splits)

lemma api_news_miss:
  assumes "cli_get w (redisKey country category) s = (Inr cached, s)" "\<not> truthy cached"
  shows "api_news w country category s =
    (case fetchAndStoreNews w country category s of
       (Inl e, s') \<Rightarrow> (Inr (ReplyJson 500 (JObj [(''error'', JStr (message e))])), s')
     | (Inr data, s') \<Rightarrow> (Inr (ReplyJson 200 data), s'))"
  using assms
  by (simp add: api_news_def io_bind_def io_catch_def io_return_def
      split: prod.splits sum.splits)

lemma cli_get_frame:
  "cli_get w key s = (Inr cached, s) \<Longrightarrow> redis s' = redis s \<Longrightarrow>
   cli_get w key s' = (Inr cached, s')"
  by (auto simp: cli_get_def split: option.splits)

lemma api_weather_miss_fail:
  assumes "cli_get w (rediswea city) s = (Inr cached, s)" "\<not> truthy cached"
    "fst (fetchAndStoreWeather w city s) = Inl e"
  shows "(case api_weather w city s of (r, s') \<Rightarrow>
     r = Inr (ReplyJson 500 (JObj [(''error'', JStr (message e))])) \<and>
     redis s' = redis s \<and>
     cli_get w (rediswea city) s' = (Inr cached, s'))"
  using assms(3) fetchAndStoreWeather_fail_frame[of w city s e]
  by (cases "fetchAndStoreWeather w city s")
     (simp add: api_weather_miss[OF assms(1,2)] cli_get_frame[OF assms(1)])

lemma api_forecast_miss_fail:
  assumes "cli_get w (redisForecastKey city) s = (Inr cached, s)" "\<not> truthy cached"
    "fst (fetchAndStoreForecast w city s) = Inl e"
  shows "(case api_forecast w city s of (r, s') \<Rightarrow>
     r = Inr (ReplyJson 500 (JObj [(''error'', JStr (message e))])) \<and>
     redis s' = redis s \<and>
     cli_get w (redisForecastKey city) s' = (Inr cached, s'))"
  using assms(3) fetchAndStoreForecast_fail_frame[of w city s e]
  by (cases "fetchAndStoreForecast w city s")
     (simp add: api_forecast_miss[OF assms(1,2)] cli_get_frame[OF assms(1)])

lemma api_news_miss_fail:
  assumes "cli_get w (redisKey country category) s = (Inr cached, s)" "\<not> truthy cached"
    "fst (fetchAndStoreNews w country category s) = Inl e"
  shows "(case api_news w country category s of (r, s') \<Rightarrow>
     r = Inr (ReplyJson 500 (JObj [(''error'', JStr (message e))])) \<and>
     redis s' = redis s \<and>
     cli_get w (redisKey country category) s' = (Inr cached, s'))"
  using assms(3) fetchAndStoreNews_fail_frame[of w country category s e]
  by (cases "fetchAndStoreNews w country category s")
     (simp add: api_news_miss[OF assms(1,2)] cli_get_frame[OF assms(1)])

text \<open>
  Claim C5. When the lookup of the key misses (Redis answers, with nothing or with the
  empty string) and the fetch-and-store function rejects with \<open>e\<close>, the handler
  answers status 500 with the error's message, the store is what it was, and a lookup of
  the key answers what it answered before: nothing is cached for a failure.
\<close>

theorem miss_then_fetch_failure_writes_nothing:
  "(cli_get w (rediswea city) s = (Inr cached, s) \<and> \<not> truthy cached \<and>
    fst (fetchAndStoreWeather w city s) = Inl e \<longrightarrow>
      (case api_weather w city s of (r, s') \<Rightarrow>
         r = Inr (ReplyJson 500 (JObj [(''error'', JStr (message e))])) \<and>
         redis s' = redis s \<and>
         cli_get w (rediswea city) s' = (Inr cached, s'))) \<and>
   (cli_get w (redisForecastKey city) s = (Inr cached, s) \<and> \<not> truthy cached \<and>
    fst (fetchAndStoreForecast w city s) = Inl e \<longrightarrow>
      (case api_forecast w city s of (r, s') \<Rightarrow>
         r = Inr (ReplyJson 500 (JObj [(''error'', JStr (message e))])) \<and>
         redis s' = redis s \<and>
         cli_get w (redisForecastKey city) s' = (Inr cached, s'))) \<and>
   (cli_get w (redisKey country category) s = (Inr cached, s) \<and> \<not> truthy cached \<and>
    fst (fetchAndStoreNews w country category s) = Inl e \<longrightarrow>
      (case api_news w country category s of (r, s') \<Rightarrow>
         r = Inr (ReplyJson 500 (JObj [(''error'', JStr (message e))])) \<and>
         redis s' = redis s \<and>
         cli_get w (redisKey country category) s' = (Inr cached, s')))"
  by (intro conjI impI; elim conjE;
      (rule api_weather_miss_fail api_forecast_miss_fail api_news_miss_fail; assumption))

text \<open>Unknown city Atlantis for weather and forecast, and the sg-business headlines
  whose request fails, each on an empty store: three error replies, the store still
  empty, the keys still absent.\<close>

theorem miss_then_fetch_failure_writes_nothing_witness:
  "(case api_weather sample_world ''Atlantis'' empty_state of (r, s') \<Rightarrow>
      r = Inr (ReplyJson 500 (JObj [(''error'', JStr ''Failed to fetch weather for Atlantis'')])) \<and>
      redis s' = Map.empty \<and>
      cli_get sample_world ''weather:atlantis'' s' = (Inr None, s')) \<and>
   (case api_forecast sample_world ''Atlantis'' empty_state of (r, s') \<Rightarrow>
      r = Inr (ReplyJson 500 (JObj [(''error'', JStr ''Failed to fetch forecast for Atlantis'')])) \<and>
      redis s' = Map.empty \<and>
      cli_get sample_world ''forecast:atlantis'' s' = (Inr None, s')) \<and>
   (case api_news sample_world ''sg'' ''business'' empty_state of (r, s') \<Rightarrow>
      r = Inr (ReplyJson 500 (JObj [(''error'', JStr ''socket hang up'')])) \<and>
      redis s' = Map.empty \<and>
      cli_get sample_world ''gnews:sg:business'' s' = (Inr None, s'))"
  using
    miss_then_fetch_failure_writes_nothing [of sample_world "''Atlantis''" empty_state None
      "Error ''Failed to fetch weather for Atlantis''"]
    miss_then_fetch_failure_writes_nothing [of sample_world "''Atlantis''" empty_state None
      "Error ''Failed to fetch forecast for Atlantis''"]
    miss_then_fetch_failure_writes_nothing [of sample_world _ empty_state None
      "Error ''socket hang up''" "''sg''" "''business''"]
  by (simp add: sample_failures sample_absent truthy_def sample_keys)
     (simp add: empty_state_def)

lemma api_weather_corrupt:
  assumes "redis_fault w = None" "redis s (rediswea city) = Some (cached, ex)" "cached \<noteq> []"
    "JSON_parse w cached = Inl e"
  shows "api_weather w city s =
    (Inr (ReplyJson 500 (JObj [(''error'', JStr (message e))])),
     s\<lparr>console := console s @ [Served Weather city, ErrorLogged e]\<rparr>)"
  using assms by (simp add: api_weather_def io_defs)

lemma api_forecast_corrupt:
  assumes "redis_fault w = None" "redis s (redisForecastKey city) = Some (cached, ex)"
    "cached \<noteq> []" "JSON_parse w cached = Inl e"
  shows "api_forecast w city s =
    (Inr (ReplyJson 500 (JObj [(''error'', JStr (message e))])),
     s\<lparr>console := console s @ [Served Forecast city, ErrorLogged e]\<rparr>)"
  using assms by (simp add: api_forecast_def io_defs)

lemma api_news_corrupt:
  assumes "redis_fault w = None" "redis s (redisKey country category) = Some (cached, ex)"
    "cached \<noteq> []" "JSON_parse w cached = Inl e"
  shows "api_news w country category s =
    (Inr (ReplyJson 500 (JObj [(''error'', JStr (message e))])),
     s\<lparr>console := console s @ [Served News (country @ ''-'' @ category)]\<rparr>)"
  using assms by (simp add: api_news_def io_defs)

text \<open>
  Claim C8. When the store holds a non-empty value under the key and \<^verbatim>\<open>JSON.parse\<close>
  rejects it with \<open>e\<close>, the handler answers status 500 with the message of \<open>e\<close>.
  The state after the call is the state before it with console lines added: no upstream
  request was made and nothing was written to the store. The corrupt value is not
  taken for a miss.
\<close>

theorem corrupt_cached_value_is_fatal:
  "(redis_fault w = None \<and> redis s (rediswea city) = Some (cached, ex) \<and> cached \<noteq> [] \<and>
    JSON_parse w cached = Inl e \<longrightarrow>
      api_weather w city s =
        (Inr (ReplyJson 500 (JObj [(''error'', JStr (message e))])),
         s\<lparr>console := console s @ [Served Weather city, ErrorLogged e]\<rparr>)) \<and>
   (redis_fault w = None \<and> redis s (redisForecastKey city) = Some (cached, ex) \<and>
    cached \<noteq> [] \<and> JSON_parse w cached = Inl e \<longrightarrow>
      api_forecast w city s =
        (Inr (ReplyJson 500 (JObj [(''error'', JStr (message e))])),
         s\<lparr>console := console s @ [Served Forecast city, ErrorLogged e]\<rparr>)) \<and>
   (redis_fault w = None \<and> redis s (redisKey country category) = Some (cached, ex) \<and>
    cached \<noteq> [] \<and> JSON_parse w cached = Inl e \<longrightarrow>
      api_news w country category s =
        (Inr (ReplyJson 500 (JObj [(''error'', JStr (message e))])),
         s\<lparr>console := console s @ [Served News (country @ ''-'' @ category)]\<rparr>))"
  by (intro conjI impI; elim conjE;
      (rule api_weather_corrupt api_forecast_corrupt api_news_corrupt; assumption))

theorem corrupt_cached_value_is_fatal_witness:
  "api_weather sample_world ''Paris'' corrupt_state =
     (Inr (ReplyJson 500 (JObj [(''error'', JStr ''Unexpected token in JSON'')])),
      corrupt_state\<lparr>console := [Served Weather ''Paris'',
                                  ErrorLogged (Error ''Unexpected token in JSON'')]\<rparr>) \<and>
   api_forecast sample_world ''Paris'' corrupt_state =
     (Inr (ReplyJson 500 (JObj [(''error'', JStr ''Unexpected token in JSON'')])),
      corrupt_state\<lparr>console := [Served Forecast ''Paris'',
                                  ErrorLogged (Error ''Unexpected token in JSON'')]\<rparr>) \<and>
   api_news sample_world ''us'' ''general'' corrupt_state =
     (Inr (ReplyJson 500 (JObj [(''error'', JStr ''Unexpected token in JSON'')])),
      corrupt_state\<lparr>console := [Served News ''us-general'']\<rparr>)"
  using
    corrupt_cached_value_is_fatal [of sample_world corrupt_state "''Paris''" "''{''" 3600
      "Error ''Unexpected token in JSON''"]
    corrupt_cached_value_is_fatal [of sample_world corrupt_state "''Paris''" "''[1,''" 3600
      "Error ''Unexpected token in JSON''"]
    corrupt_cached_value_is_fatal [of sample_world corrupt_state _ "''<html>''" 21600
      "Error ''Unexpected token in JSON''" "''us''" "''general''"]
  by (simp add: sample_world_sel sample_keys sample_parse_def)
     (simp add: corrupt_state_def)

lemma api_weather_twice:
  assumes "redis_fault w = None" "redis s (rediswea city) = None"
    "fetch w (weather_url w city) = Inr (Response True (Inr data))"
    "JSON_stringify w data \<noteq> []" "JSON_parse w (JSON_stringify w data) = Inr data"
  shows "(let (r1, s1) = api_weather w city s; (r2, s2) = api_weather w city s1 in
     r1 = Inr (ReplyJson 200 data) \<and> r2 = Inr (ReplyJson 200 data) \<and>
     requests s1 = requests s @ [weather_url w city] \<and> requests s2 = requests s1 \<and>
     redis s1 = (redis s)(rediswea city \<mapsto> (JSON_stringify w data, 3600)) \<and> redis s2 = redis s1)"
  using assms by (simp add: api_weather_def fetchAndStoreWeather_def io_defs)

lemma api_forecast_twice:
  assumes "redis_fault w = None" "redis s (redisForecastKey city) = None"
    "fetch w (forecast_url w city) = Inr (Response True (Inr data))"
    "JSON_stringify w data \<noteq> []" "JSON_parse w (JSON_stringify w data) = Inr data"
  shows "(let (r1, s1) = api_forecast w city s; (r2, s2) = api_forecast w city s1 in
     r1 = Inr (ReplyJson 200 data) \<and> r2 = Inr (ReplyJson 200 data) \<and>
     requests s1 = requests s @ [forecast_url w city] \<and> requests s2 = requests s1 \<and>
     redis s1 = (redis s)(redisForecastKey city \<mapsto> (JSON_stringify w data, 3600)) \<and>
     redis s2 = redis s1)"
  using assms by (simp add: api_forecast_def fetchAndStoreForecast_def io_defs)

lemma api_news_twice:
  assumes "redis_fault w = None" "redis s (redisKey country category) = None"
    "fetch w (news_url w country category) = Inr (Response True (Inr data))"
    "JSON_stringify w data \<noteq> []" "JSON_parse w (JSON_stringify w data) = Inr data"
  shows "(let (r1, s1) = api_news w country category s;
              (r2, s2) = api_news w country category s1 in
     r1 = Inr (ReplyJson 200 data) \<and> r2 = Inr (ReplyJson 200 data) \<and>
     requests s1 = requests s @ [news_url w country category] \<and> requests s2 = requests s1 \<and>
     redis s1 = (redis s)(redisKey country category \<mapsto> (JSON_stringify w data, 21600)) \<and>
     redis s2 = redis s1)"
  using assms by (simp add: api_news_def fetchAndStoreNews_def io_defs)

text \<open>
  Claim C4. The key is absent, Redis works, and the provider answers the request with a
  success status and the JSON payload \<open>data\<close>; \<^verbatim>\<open>JSON.stringify\<close> of the payload is
  a non-empty text that \<^verbatim>\<open>JSON.parse\<close> reads back as the payload (as the built-ins do
  on a payload that came out of \<^verbatim>\<open>response.json()\<close>). Then two calls of the handler
  in sequence both answer status 200 with \<open>data\<close>; the first call makes the one
  upstream request and stores the payload, the second makes none and leaves the store
  as it is.
\<close>

theorem resolve_twice_fetches_once:
  "(redis_fault w = None \<and> redis s (rediswea city) = None \<and>
    fetch w (weather_url w city) = Inr (Response True (Inr data)) \<and>
    JSON_stringify w data \<noteq> [] \<and> JSON_parse w (JSON_stringify w data) = Inr data \<longrightarrow>
      (let (r1, s1) = api_weather w city s; (r2, s2) = api_weather w city s1 in
         r1 = Inr (ReplyJson 200 data) \<and> r2 = Inr (ReplyJson 200 data) \<and>
         requests s1 = requests s @ [weather_url w city] \<and> requests s2 = requests s1 \<and>
         redis s1 = (redis s)(rediswea city \<mapsto> (JSON_stringify w data, 3600)) \<and>
         redis s2 = redis s1)) \<and>
   (redis_fault w = None \<and> redis s (redisForecastKey city) = None \<and>
    fetch w (forecast_url w city) = Inr (Response True (Inr data)) \<and>
    JSON_stringify w data \<noteq> [] \<and> JSON_parse w (JSON_stringify w data) = Inr data \<longrightarrow>
      (let (r1, s1) = api_forecast w city s; (r2, s2) = api_forecast w city s1 in
         r1 = Inr (ReplyJson 200 data) \<and> r2 = Inr (ReplyJson 200 data) \<and>
         requests s1 = requests s @ [forecast_url w city] \<and> requests s2 = requests s1 \<and>
         redis s1 = (redis s)(redisForecastKey city \<mapsto> (JSON_stringify w data, 3600)) \<and>
         redis s2 = redis s1)) \<and>
   (redis_fault w = None \<and> redis s (redisKey country category) = None \<and>
    fetch w (news_url w country category) = Inr (Response True (Inr data)) \<and>
    JSON_stringify w data \<noteq> [] \<and> JSON_parse w (JSON_stringify w data) = Inr data \<longrightarrow>
      (let (r1, s1) = api_news w country category s;
           (r2, s2) = api_news w country category s1 in
         r1 = Inr (ReplyJson 200 data) \<and> r2 = Inr (ReplyJson 200 data) \<and>
         requests s1 = requests s @ [news_url w country category] \<and> requests s2 = requests s1 \<and>
         redis s1 = (redis s)(redisKey country category \<mapsto> (JSON_stringify w data, 21600)) \<and>
         redis s2 = redis s1))"
  by (intro conjI impI; elim conjE;
      (rule api_weather_twice api_forecast_twice api_news_twice; assumption))

text \<open>Paris and the us-general headlines in \<^const>\<open>sample_world\<close>, from an empty
  store: after both calls there is one request and one entry.\<close>

theorem resolve_twice_fetches_once_witness:
  "(let (r1, s1) = api_weather sample_world ''Paris'' empty_state;
        (r2, s2) = api_weather sample_world ''Paris'' s1 in
      r1 = Inr (ReplyJson 200 (JObj [])) \<and> r2 = Inr (ReplyJson 200 (JObj [])) \<and>
      requests s2 =
        [''https://api.openweathermap.org/data/2.5/weather?q=Paris&units=metric&appid=wkey''] \<and>
      redis s2 = [''weather:paris'' \<mapsto> (''{}'', 3600)]) \<and>
   (let (r1, s1) = api_forecast sample_world ''Paris'' empty_state;
        (r2, s2) = api_forecast sample_world ''Paris'' s1 in
      r1 = Inr (ReplyJson 200 (JObj [])) \<and> r2 = Inr (ReplyJson 200 (JObj [])) \<and>
      requests s2 =
        [''https://api.openweathermap.org/data/2.5/forecast?q=Paris&units=metric&appid=wkey''] \<and>
      redis s2 = [''forecast:paris'' \<mapsto> (''{}'', 3600)]) \<and>
   (let (r1, s1) = api_news sample_world ''us'' ''general'' empty_state;
        (r2, s2) = api_news sample_world ''us'' ''general'' s1 in
      r1 = Inr (ReplyJson 200 (JObj [])) \<and> r2 = Inr (ReplyJson 200 (JObj [])) \<and>
      requests s2 =
        [''https://gnews.io/api/v4/top-headlines?category=general&lang=en&country=us&max=100&apikey=gkey''] \<and>
      redis s2 = [''gnews:us:general'' \<mapsto> (''{}'', 21600)])"
  using resolve_twice_fetches_once [of sample_world empty_state "''Paris''" "JObj []" "''us''" "''general''"]
  by (simp add: sample_world_sel sample_keys sample_urls sample_fetch_ok sample_codec
      empty_state_def split: prod.splits)

section \<open>The forecast function of the two snapshots\<close>

text \<open>
  Claim C7 says that the forecast functions of the two snapshots are identical but for
  the expiry. They differ in a second place, the console line after a successful
  store: for Paris in \<^const>\<open>sample_world\<close>, \<^const>\<open>fetchAndStoreForecast\<close>
  (\<^verbatim>\<open>server.js\<close>) prints the check mark and \<open>Stored forecast for: Paris\<close>, and
  \<^const>\<open>fetchAndStoreForecast_part_000\<close> (the other snapshot) prints
  \<open>Stored forecast in Redis for: Paris\<close>.
\<close>

theorem forecast_snapshots_console_differs:
  "console (snd (fetchAndStoreForecast sample_world ''Paris'' empty_state)) =
     [Printed (check_mark @ '' Stored forecast for: Paris'')] \<and>
   console (snd (fetchAndStoreForecast_part_000 sample_world ''Paris'' empty_state)) =
     [Printed ''Stored forecast in Redis for: Paris''] \<and>
   console (snd (fetchAndStoreForecast sample_world ''Paris'' empty_state)) \<noteq>
     console (snd (fetchAndStoreForecast_part_000 sample_world ''Paris'' empty_state))"
  by (simp add: fetchAndStoreForecast_def fetchAndStoreForecast_part_000_def io_defs
      sample_world_sel sample_urls sample_fetch_ok empty_state_def check_mark_def)

text \<open>
  Claim C7, amended. Started in the same world and state, the two functions resolve to
  the same payload or reject with the same error, and make the same single request to
  the same forecast endpoint. On success both write the same text under the same key
  \<^const>\<open>redisForecastKey\<close>, the function of \<^verbatim>\<open>server.js\<close> with an expiry of 3600
  seconds and the other with 21600, and each prints its own wording of the line that
  reports the store; on failure neither writes and neither prints.
\<close>

theorem forecast_snapshots_differ_in_ttl_and_wording:
  "fst (fetchAndStoreForecast_part_000 w city s) = fst (fetchAndStoreForecast w city s) \<and>
   requests (snd (fetchAndStoreForecast w city s)) =
     requests s @ [''https://api.openweathermap.org/data/2.5/forecast?q='' @ city @
                   ''&units=metric&appid='' @ WEATHER_API w] \<and>
   requests (snd (fetchAndStoreForecast_part_000 w city s)) =
     requests s @ [''https://api.openweathermap.org/data/2.5/forecast?q='' @ city @
                   ''&units=metric&appid='' @ WEATHER_API w] \<and>
   (case fst (fetchAndStoreForecast w city s) of
      Inr data \<Rightarrow>
        redis (snd (fetchAndStoreForecast w city s)) =
          (redis s)(redisForecastKey city \<mapsto> (JSON_stringify w data, 3600)) \<and>
        redis (snd (fetchAndStoreForecast_part_000 w city s)) =
          (redis s)(redisForecastKey city \<mapsto> (JSON_stringify w data, 21600)) \<and>
        console (snd (fetchAndStoreForecast w city s)) =
          console s @ [Printed (check_mark @ '' Stored forecast for: '' @ city)] \<and>
        console (snd (fetchAndStoreForecast_part_000 w city s)) =
          console s @ [Printed (''Stored forecast in Redis for: '' @ city)]
    | Inl e \<Rightarrow>
        redis (snd (fetchAndStoreForecast w city s)) = redis s \<and>
        redis (snd (fetchAndStoreForecast_part_000 w city s)) = redis s \<and>
        console (snd (fetchAndStoreForecast w city s)) = console s \<and>
        console (snd (fetchAndStoreForecast_part_000 w city s)) = console s)"
  by (simp add: fetchAndStoreForecast_def fetchAndStoreForecast_part_000_def forecast_url_def
      io_defs split: sum.splits option.splits)

text \<open>The forecast for Paris in \<^const>\<open>sample_world\<close>: one hour in one snapshot, six in
  the other, the same payload and the same request.\<close>

theorem forecast_snapshots_differ_in_ttl_and_wording_witness:
  "redis (snd (fetchAndStoreForecast sample_world ''Paris'' empty_state)) ''forecast:paris'' =
     Some (''{}'', 3600) \<and>
   redis (snd (fetchAndStoreForecast_part_000 sample_world ''Paris'' empty_state)) ''forecast:paris'' =
     Some (''{}'', 21600) \<and>
   fst (fetchAndStoreForecast sample_world ''Paris'' empty_state) = Inr (JObj []) \<and>
   fst (fetchAndStoreForecast_part_000 sample_world ''Paris'' empty_state) = Inr (JObj []) \<and>
   requests (snd (fetchAndStoreForecast_part_000 sample_world ''Paris'' empty_state)) =
     [''https://api.openweathermap.org/data/2.5/forecast?q=Paris&units=metric&appid=wkey'']"
proof -
  have ok: "fst (fetchAndStoreForecast sample_world ''Paris'' empty_state) = Inr (JObj [])"
    by (simp add: fetchAndStoreForecast_def io_defs sample_world_sel sample_urls sample_fetch_ok)
  have start: "requests empty_state = []"
    by (simp add: empty_state_def)
  show ?thesis
    using forecast_snapshots_differ_in_ttl_and_wording [of sample_world "''Paris''" empty_state]
    by (simp add: ok start sample_keys sample_world_sel sample_codec)
qed

section \<open>The quote fetcher\<close>

lemma fetchAndStoreStock_success:
  assumes "redis_fault w = None" "axios_get w (stock_url symbol) (stock_params w) = Inr data"
    "index0 data = Inr x"
  shows "fetchAndStoreStock w symbol s =
     (Inr (or_null (optional_close x)),
      s\<lparr>redis := (redis s)(redisStockKey symbol \<mapsto>
                              (JSON_stringify w (or_null (optional_close x)), 10800)),
        requests := requests s @ [stock_url symbol],
        console := console s @ [Stored Stock symbol]\<rparr>)"
  using assms by (simp add: fetchAndStoreStock_def lastPrice_def io_defs)

text \<open>
  A body that is \<^verbatim>\<open>null\<close> is not a series: reading its entry 0 throws, the function
  rejects after the request and stores nothing.
\<close>

lemma fetchAndStoreStock_null_body:
  assumes "axios_get w (stock_url symbol) (stock_params w) = Inr JNull"
  shows "fetchAndStoreStock w symbol s =
     (Inl (TypeError ''Cannot read properties of null''),
      s\<lparr>requests := requests s @ [stock_url symbol]\<rparr>)"
  using assms by (simp add: fetchAndStoreStock_def lastPrice_def io_defs)

text \<open>An entry 0 without a \<^verbatim>\<open>close\<close> field gives the price \<^verbatim>\<open>null\<close>.\<close>

lemma lastPrice_without_close:
  "map_of props ''close'' = None \<Longrightarrow>
   lastPrice (JArr (JObj props # rest)) s = (Inr JNull, s)"
  by (simp add: lastPrice_def or_null_def)

text \<open>
  Claim C2 (a successful fetch-and-store of a quote writes the price under
  \<^verbatim>\<open>stock:<SYMBOL>\<close> with an expiry of 7200 seconds). The key and the value are as
  claimed, the expiry is not: the function passes \<^verbatim>\<open>EX: 3 * 60 * 60\<close>, three hours,
  under two comments that say two hours. For AAPL in \<^const>\<open>sample_world\<close>:
\<close>

theorem fetchAndStoreStock_expiry_three_hours:
  "redis (snd (fetchAndStoreStock sample_world ''AAPL'' empty_state)) ''stock:AAPL'' =
     Some (''172.25'', 3 * 60 * 60) \<and>
   redis (snd (fetchAndStoreStock sample_world ''AAPL'' empty_state)) ''stock:AAPL'' \<noteq>
     Some (''172.25'', 7200)"
  by (simp add: fetchAndStoreStock_success [OF sample_world_sel(1) sample_axios_values(1)]
      or_null_def sample_world_sel sample_codec sample_stock_keys empty_state_def)






section \<open>The aggregate of five quotes\<close>

lemma stock_task_result_cong:
  "redis s1 (redisStockKey symbol) = redis s2 (redisStockKey symbol) \<Longrightarrow>
   fst (stock_task w symbol s1) = fst (stock_task w symbol s2)"
  by (simp add: stock_task_def fetchAndStoreStock_def lastPrice_def io_defs
      split: sum.splits option.splits)

lemma stock_task_frame:
  "k \<noteq> redisStockKey symbol \<Longrightarrow> redis (snd (stock_task w symbol s)) k = redis s k"
  by (simp add: stock_task_def fetchAndStoreStock_def lastPrice_def io_defs
      split: sum.splits option.splits)

lemma promise_all_Cons_fst:
  "fst (promise_all (t # ts) s) =
     (case fst (t s) of
        Inl e \<Rightarrow> Inl e
      | Inr x \<Rightarrow> (case fst (promise_all ts (snd (t s))) of
                    Inl e' \<Rightarrow> Inl e'
                  | Inr xs \<Rightarrow> Inr (x # xs)))"
  by (cases "t s"; cases "promise_all ts (snd (t s))") (simp split: sum.splits)

lemma promise_all_rejects:
  "distinct (map redisStockKey symbols) \<Longrightarrow> symbol \<in> set symbols \<Longrightarrow>
   fst (stock_task w symbol s) = Inl e \<Longrightarrow>
   \<exists>e'. fst (promise_all (map (stock_task w) symbols) s) = Inl e'"
proof (induction symbols arbitrary: s)
  case Nil
  then show ?case by simp
next
  case (Cons a symbols)
  show ?case
  proof (cases "symbol = a")
    case True
    with Cons.prems(3) show ?thesis
      by (simp only: list.map promise_all_Cons_fst) simp
  next
    case False
    with Cons.prems have mem: "symbol \<in> set symbols"
      and d: "distinct (map redisStockKey symbols)"
      and ne: "redisStockKey symbol \<noteq> redisStockKey a"
      by (auto simp: image_iff)
    have "fst (stock_task w symbol (snd (stock_task w a s))) = fst (stock_task w symbol s)"
      by (rule stock_task_result_cong) (simp add: stock_task_frame[OF ne])
    with Cons.prems(3) have "fst (stock_task w symbol (snd (stock_task w a s))) = Inl e"
      by simp
    from Cons.IH[OF d mem this]
    obtain e' where "fst (promise_all (map (stock_task w) symbols) (snd (stock_task w a s))) = Inl e'"
      by blast
    then show ?thesis
      by (simp only: list.map promise_all_Cons_fst) (simp split: sum.splits)
  qed
qed

lemma promise_all_resolves:
  "distinct (map redisStockKey symbols) \<Longrightarrow>
   \<forall>symbol \<in> set symbols. fst (stock_task w symbol s) = Inr (symbol, price symbol) \<Longrightarrow>
   fst (promise_all (map (stock_task w) symbols) s) = Inr (map (\<lambda>symbol. (symbol, price symbol)) symbols)"
proof (induction symbols arbitrary: s)
  case Nil
  then show ?case by simp
next
  case (Cons a symbols)
  have "\<forall>symbol \<in> set symbols.
      fst (stock_task w symbol (snd (stock_task w a s))) = Inr (symbol, price symbol)"
  proof
    fix symbol assume mem: "symbol \<in> set symbols"
    with Cons.prems(1) have ne: "redisStockKey symbol \<noteq> redisStockKey a"
      by (auto simp: image_iff)
    have "fst (stock_task w symbol (snd (stock_task w a s))) = fst (stock_task w symbol s)"
      by (rule stock_task_result_cong) (simp add: stock_task_frame[OF ne])
    with Cons.prems(2) mem
    show "fst (stock_task w symbol (snd (stock_task w a s))) = Inr (symbol, price symbol)"
      by simp
  qed
  with Cons.IH[of "snd (stock_task w a s)"] Cons.prems(1)
  have "fst (promise_all (map (stock_task w) symbols) (snd (stock_task w a s))) =
      Inr (map (\<lambda>symbol. (symbol, price symbol)) symbols)"
    by simp
  with Cons.prems(2) show ?case
    by (simp only: list.map promise_all_Cons_fst) simp
qed

lemma SYMBOLS_keys_distinct: "distinct (map redisStockKey SYMBOLS)"
  by (simp add: SYMBOLS_def sample_stock_keys)

lemma api_stocks_reply:
  "fst (api_stocks w s) =
     (case fst (promise_all (map (stock_task w) SYMBOLS) s) of
        Inl e \<Rightarrow> Inr (ReplyJson 500 (JObj [(''error'', JStr ''ERROR: Failed to fetch stocks'')]))
      | Inr results \<Rightarrow> Inr (ReplyJson 200 (JObj (foldl obj_set [] results))))"
  by (simp add: api_stocks_def io_catch_def io_bind_def io_return_def
      split: prod.splits sum.splits)

lemma api_stocks_all_resolve:
  assumes "\<forall>symbol \<in> set SYMBOLS. fst (stock_task w symbol s) = Inr (symbol, price symbol)"
  shows "fst (api_stocks w s) =
     Inr (ReplyJson 200 (JObj [(''AAPL'', price ''AAPL''), (''TSLA'', price ''TSLA''),
       (''MSFT'', price ''MSFT''), (''GOOGL'', price ''GOOGL''), (''NVDA'', price ''NVDA'')]))"
  unfolding api_stocks_reply promise_all_resolves[OF SYMBOLS_keys_distinct assms]
  by (simp add: SYMBOLS_def obj_set_def)

text \<open>
  Claim C10. When the task of one of the five symbols rejects (here: when it would
  reject if run on the state the request starts from; the tasks of the other symbols do
  not touch its key, so it rejects in the run as well), \<^verbatim>\<open>/api/stocks\<close> answers
  status 500 with the fixed error text alone: no price of any symbol is in the reply.
\<close>

theorem api_stocks_all_or_nothing:
  assumes "symbol \<in> set SYMBOLS" and "fst (stock_task w symbol s) = Inl e"
  shows "fst (api_stocks w s) =
     Inr (ReplyJson 500 (JObj [(''error'', JStr ''ERROR: Failed to fetch stocks'')]))"
proof -
  from promise_all_rejects[OF SYMBOLS_keys_distinct assms]
  obtain e' where "fst (promise_all (map (stock_task w) SYMBOLS) s) = Inl e'"
    by blast
  then show ?thesis
    by (simp add: api_stocks_reply)
qed

lemma sample_stock_tasks:
  "fst (stock_task sample_world ''AAPL'' empty_state) = Inr (''AAPL'', JNum (689 / 4))"
  "fst (stock_task sample_world ''TSLA'' empty_state) =
     Inl (Error ''Request failed with status code 404'')"
  by (simp_all add: stock_task_def fetchAndStoreStock_def lastPrice_def io_defs
      sample_axios_values sample_world_sel(1) empty_state_def or_null_def)

text \<open>In \<^const>\<open>sample_world\<close> the quote for TSLA is rejected and the one for AAPL is
  there; the reply is the error.\<close>

theorem api_stocks_all_or_nothing_witness:
  "''TSLA'' \<in> set SYMBOLS \<and>
   fst (stock_task sample_world ''TSLA'' empty_state) =
     Inl (Error ''Request failed with status code 404'') \<and>
   fst (stock_task sample_world ''AAPL'' empty_state) = Inr (''AAPL'', JNum (689 / 4)) \<and>
   fst (api_stocks sample_world empty_state) =
     Inr (ReplyJson 500 (JObj [(''error'', JStr ''ERROR: Failed to fetch stocks'')]))"
proof -
  have mem: "''TSLA'' \<in> set SYMBOLS" by (simp add: SYMBOLS_def)
  show ?thesis
    using mem sample_stock_tasks api_stocks_all_or_nothing [OF mem sample_stock_tasks(2)]
    by simp
qed

text \<open>When every task resolves, as in \<^const>\<open>calm_world\<close> where no ticker has data,
  the reply is the object of the five prices.\<close>

lemma calm_stocks:
  "fst (api_stocks calm_world empty_state) =
     Inr (ReplyJson 200 (JObj [(''AAPL'', JNull), (''TSLA'', JNull), (''MSFT'', JNull),
       (''GOOGL'', JNull), (''NVDA'', JNull)]))"
proof -
  have "\<forall>symbol \<in> set SYMBOLS.
      fst (stock_task calm_world symbol empty_state) = Inr (symbol, (\<lambda>_. JNull) symbol)"
    by (simp add: stock_task_def fetchAndStoreStock_def lastPrice_def io_defs
        calm_world_def empty_state_def or_null_def)
  from api_stocks_all_resolve[OF this] show ?thesis by simp
qed

end
